theory Spec2Isabelle
  imports Complex_Main "HOL-Library.Sublist"
begin

section \<open>Semantic Bookmarks: the client store, the search bar and the storage schema\<close>

subsection \<open>Strings and JSON values\<close>

text \<open>
  A JavaScript string is a sequence of UTF-16 code units; \<open>length\<close> counts code units,
  as \<^verbatim>\<open>String.prototype.length\<close> does.
\<close>

type_synonym jsstring = "nat list"

definition lit :: "string \<Rightarrow> jsstring" where
  "lit s = map (\<lambda>c. of_char c) s"

text \<open>
  The code units that \<^verbatim>\<open>String.prototype.trim\<close> strips: the ECMAScript WhiteSpace and
  LineTerminator productions.
\<close>

definition is_whitespace :: "nat \<Rightarrow> bool" where
  "is_whitespace c =
     (c = 9 \<or> c = 10 \<or> c = 11 \<or> c = 12 \<or> c = 13 \<or> c = 32 \<or> c = 160 \<or> c = 5760
      \<or> (8192 \<le> c \<and> c \<le> 8202) \<or> c = 8232 \<or> c = 8233 \<or> c = 8239 \<or> c = 8287
      \<or> c = 12288 \<or> c = 65279)"

definition trim :: "jsstring \<Rightarrow> jsstring" where
  "trim s = rev (dropWhile is_whitespace (rev (dropWhile is_whitespace s)))"

datatype json =
    JNull
  | JBool bool
  | JNum real
  | JStr "nat list"
  | JArr "json list"
  | JObj "(nat list \<times> json) list"

subsection \<open>Types of the client (\<^verbatim>\<open>types/index.ts\<close>)\<close>

text \<open>
  \<^verbatim>\<open>interface Bookmark\<close>. An optional field (\<^verbatim>\<open>title?: string\<close>) is an \<open>option\<close>.
  The field \<^verbatim>\<open>id\<close> is \<open>id_bm\<close> here, since \<open>id\<close> is the identity function of HOL.
\<close>

record Bookmark =
  id_bm :: jsstring
  user_id :: jsstring
  url :: jsstring
  title :: "jsstring option"
  description :: "jsstring option"
  content :: "jsstring option"
  platform :: "jsstring option"
  meta_data :: "(jsstring \<times> json) list"
  tags :: "jsstring list"
  is_public :: bool
  created_at :: jsstring
  updated_at :: jsstring
  relevance_score :: "real option"

datatype search_mode = smart

text \<open>\<^verbatim>\<open>interface SearchQuery\<close>; its field \<^verbatim>\<open>query\<close> is \<open>query_sq\<close>.\<close>

record SearchQuery =
  query_sq :: jsstring
  limit :: "nat option"
  mode :: "search_mode option"
  platform_sq :: "jsstring option"
  tags_sq :: "jsstring list option"
  date_from :: "jsstring option"
  date_to :: "jsstring option"

text \<open>\<^verbatim>\<open>interface SearchResult\<close>; its field \<^verbatim>\<open>query\<close> is \<open>query_sr\<close>.\<close>

record SearchResult =
  bookmarks_sr :: "Bookmark list"
  total :: int
  query_sr :: jsstring

subsection \<open>The API layer (\<^verbatim>\<open>utils/api.ts\<close>)\<close>

text \<open>
  A rejected request. The code reads \<^verbatim>\<open>error.response?.status\<close> and
  \<^verbatim>\<open>error.response?.data?.detail\<close>; both may be absent (a network failure has no
  response).
\<close>

record api_error =
  response_status :: "nat option"
  response_detail :: "jsstring option"

text \<open>
  \<^verbatim>\<open>error.response?.data?.detail || fallback\<close>: an absent or empty detail is falsy and
  gives the fallback.
\<close>

definition detail_or :: "api_error \<Rightarrow> jsstring \<Rightarrow> jsstring" where
  "detail_or e fallback =
     (case response_detail e of
        None \<Rightarrow> fallback
      | Some d \<Rightarrow> if d = [] then fallback else d)"

text \<open>The part of the browser the API layer touches: local storage and the location.\<close>

record Browser =
  access_token :: "jsstring option"
  location_href :: jsstring

text \<open>
  The response interceptor: a 401 removes the token and sends the browser to the login
  page; the error is rejected onwards in every case.
\<close>

definition response_interceptor :: "api_error + 'a \<Rightarrow> Browser \<Rightarrow> Browser" where
  "response_interceptor r br =
     (case r of
        Inr _ \<Rightarrow> br
      | Inl e \<Rightarrow>
          if response_status e = Some 401
          then br\<lparr>access_token := None, location_href := lit ''/auth/login''\<rparr>
          else br)"

subsection \<open>The bookmark store (\<^verbatim>\<open>store/bookmarkStore.ts\<close>)\<close>

record BookmarkState =
  bookmarks :: "Bookmark list"
  searchResults :: "SearchResult option"
  isLoading :: bool
  error :: "jsstring option"

definition initial_store :: BookmarkState where
  "initial_store = \<lparr>bookmarks = [], searchResults = None, isLoading = False, error = None\<rparr>"

text \<open>
  Every action takes the outcome of its awaited API call (\<open>Inl\<close> a rejection, \<open>Inr\<close> the
  response data) and the store, and returns what the action's promise settles to (\<open>Inl\<close>
  when it rethrows) with the new store.
\<close>

definition deleteBookmark ::
  "jsstring \<Rightarrow> api_error + unit \<Rightarrow> BookmarkState \<Rightarrow> (api_error + unit) \<times> BookmarkState" where
  "deleteBookmark i resp st =
     (let st1 = st\<lparr>isLoading := True, error := None\<rparr>
      in case resp of
           Inr _ \<Rightarrow>
             (Inr (),
              st1\<lparr>bookmarks := filter (\<lambda>b. id_bm b \<noteq> i) (bookmarks st1), isLoading := False\<rparr>)
         | Inl e \<Rightarrow>
             (Inl e,
              st1\<lparr>error := Some (detail_or e (lit ''Failed to delete bookmark'')),
                  isLoading := False\<rparr>))"

definition search ::
  "SearchQuery \<Rightarrow> api_error + SearchResult \<Rightarrow> BookmarkState
     \<Rightarrow> (api_error + SearchResult) \<times> BookmarkState" where
  "search q resp st =
     (let st1 = st\<lparr>isLoading := True, error := None\<rparr>
      in case resp of
           Inr results \<Rightarrow> (Inr results, st1\<lparr>searchResults := Some results, isLoading := False\<rparr>)
         | Inl e \<Rightarrow>
             (Inl e,
              st1\<lparr>error := Some (detail_or e (lit ''Search failed'')), isLoading := False\<rparr>))"

definition clearSearch :: "BookmarkState \<Rightarrow> BookmarkState" where
  "clearSearch st = st\<lparr>searchResults := None\<rparr>"


subsection \<open>The search bar (\<^verbatim>\<open>components/SearchBar.tsx\<close>)\<close>

text \<open>The component's own state: the three \<^verbatim>\<open>useState\<close> cells and the input's focus.\<close>

record SearchBarState =
  query :: jsstring
  suggestions :: "jsstring list"
  showSuggestions :: bool
  input_focused :: bool

text \<open>The requests the page sends, in order.\<close>

datatype request =
    PostSearch SearchQuery
  | GetSuggestions jsstring
  | DeleteBookmark jsstring

text \<open>Everything a handler of the page can read or change.\<close>

record Page =
  store :: BookmarkState
  bar :: SearchBarState
  browser :: Browser
  requests :: "request list"
  console_errors :: "api_error list"



text \<open>\<^verbatim>\<open>searchQuery || query\<close>: an absent or empty override is falsy.\<close>

definition finalQuery :: "jsstring option \<Rightarrow> jsstring \<Rightarrow> jsstring" where
  "finalQuery searchQuery q =
     (case searchQuery of
        None \<Rightarrow> q
      | Some s \<Rightarrow> if s = [] then q else s)"

text \<open>
  \<^verbatim>\<open>handleSearch(searchQuery?)\<close>. \<open>resp\<close> is the outcome of the POST the store's
  \<open>search\<close> awaits, read only when the request is made. The handler catches the store's
  rethrown error and logs it to the console.
\<close>

definition handleSearch ::
  "jsstring option \<Rightarrow> api_error + SearchResult \<Rightarrow> Page \<Rightarrow> Page" where
  "handleSearch searchQuery resp w =
     (let fq = finalQuery searchQuery (query (bar w))
      in if trim fq = [] then w
         else
           (let q = \<lparr>query_sq = fq, limit = None, mode = Some smart, platform_sq = None,
                     tags_sq = None, date_from = None, date_to = None\<rparr>;
                w1 = w\<lparr>requests := requests w @ [PostSearch q],
                       browser := response_interceptor resp (browser w)\<rparr>
            in case search q resp (store w1) of
                 (Inr _, st') \<Rightarrow>
                   w1\<lparr>store := st',
                      bar := (bar w1)\<lparr>showSuggestions := False, input_focused := False\<rparr>\<rparr>
               | (Inl e, st') \<Rightarrow>
                   w1\<lparr>store := st', console_errors := console_errors w1 @ [e]\<rparr>))"

subsection \<open>The declared shape of a bookmark\<close>




datatype sql_type =
    UUID
  | TEXT
  | VARCHAR nat
  | JSONB
  | TEXT_ARRAY
  | BOOLEAN
  | TIMESTAMP
  | INTEGER
  | VECTOR nat






subsection \<open>The storage schema (\<^verbatim>\<open>database/init.sql\<close>)\<close>

type_synonym uuid = nat
type_synonym timestamp = int
type_synonym sqltext = "nat list"

text \<open>A column without \<^verbatim>\<open>NOT NULL\<close> is an \<open>option\<close>; \<open>None\<close> is SQL's NULL.\<close>

record users_row =
  users_id :: uuid
  email :: sqltext
  password_hash :: sqltext
  users_created_at :: "timestamp option"
  users_updated_at :: "timestamp option"

record bookmarks_row =
  bookmarks_id :: uuid
  bookmarks_user_id :: "uuid option"
  bookmarks_url :: sqltext
  bookmarks_title :: "sqltext option"
  bookmarks_description :: "sqltext option"
  bookmarks_content :: "sqltext option"
  bookmarks_platform :: "sqltext option"
  bookmarks_metadata :: "json option"
  bookmarks_tags :: "sqltext list option"
  bookmarks_is_public :: "bool option"
  bookmarks_created_at :: "timestamp option"
  bookmarks_updated_at :: "timestamp option"

record embeddings_row =
  embeddings_id :: uuid
  bookmark_id :: "uuid option"
  content_chunk :: "sqltext option"
  embedding :: "real list option"
  chunk_index :: "int option"
  embeddings_created_at :: "timestamp option"

record search_logs_row =
  search_logs_id :: uuid
  search_logs_user_id :: "uuid option"
  search_logs_query :: "sqltext option"
  results_count :: "int option"
  search_logs_created_at :: "timestamp option"

record database =
  users_table :: "users_row list"
  bookmarks_table :: "bookmarks_row list"
  embeddings_table :: "embeddings_row list"
  search_logs_table :: "search_logs_row list"

text \<open>
  \<^verbatim>\<open>DELETE FROM bookmarks WHERE id = bid\<close> under the schema's foreign key
  \<^verbatim>\<open>embeddings.bookmark_id REFERENCES bookmarks(id) ON DELETE CASCADE\<close>: the rows of
  \<open>embeddings\<close> that reference a deleted row go with it. A NULL reference references
  nothing. No other table references \<open>bookmarks\<close>.
\<close>

definition delete_bookmark :: "uuid \<Rightarrow> database \<Rightarrow> database" where
  "delete_bookmark bid db =
     (let deleted = map bookmarks_id (filter (\<lambda>b. bookmarks_id b = bid) (bookmarks_table db))
      in db\<lparr>bookmarks_table := filter (\<lambda>b. bookmarks_id b \<noteq> bid) (bookmarks_table db),
            embeddings_table :=
              filter (\<lambda>e. case bookmark_id e of None \<Rightarrow> True | Some r \<Rightarrow> r \<notin> set deleted)
                (embeddings_table db)\<rparr>)"

text \<open>
  The two search indexes are functions of the tables. \<^verbatim>\<open>idx_embeddings_vector\<close> (HNSW,
  \<^verbatim>\<open>vector_cosine_ops\<close>) holds the rows of \<open>embeddings\<close> whose vector is not NULL.
  \<^verbatim>\<open>idx_bookmarks_fts\<close> (GIN) holds the rows of \<open>bookmarks\<close> whose indexed expression
  \<^verbatim>\<open>title || ' ' || COALESCE(description, '') || ' ' || COALESCE(content, '')\<close> is not
  NULL; \<^verbatim>\<open>||\<close> with a NULL title is NULL.
\<close>

definition idx_embeddings_vector :: "database \<Rightarrow> embeddings_row list" where
  "idx_embeddings_vector db = filter (\<lambda>e. embedding e \<noteq> None) (embeddings_table db)"

definition coalesce :: "sqltext option \<Rightarrow> sqltext \<Rightarrow> sqltext" where
  "coalesce v d = (case v of None \<Rightarrow> d | Some t \<Rightarrow> t)"

definition fts_document :: "bookmarks_row \<Rightarrow> sqltext option" where
  "fts_document b =
     (case bookmarks_title b of
        None \<Rightarrow> None
      | Some t \<Rightarrow>
          Some (t @ [32] @ coalesce (bookmarks_description b) [] @ [32]
                @ coalesce (bookmarks_content b) []))"

definition idx_bookmarks_fts :: "database \<Rightarrow> bookmarks_row list" where
  "idx_bookmarks_fts db = filter (\<lambda>b. fts_document b \<noteq> None) (bookmarks_table db)"

text \<open>The chunks of a bookmark: the rows of \<open>embeddings\<close> that reference it.\<close>

definition chunks_of :: "uuid \<Rightarrow> database \<Rightarrow> embeddings_row list" where
  "chunks_of bid db = filter (\<lambda>e. bookmark_id e = Some bid) (embeddings_table db)"


subsection \<open>The relevance badge (\<^verbatim>\<open>components/BookmarkList.tsx\<close>)\<close>

text \<open>\<^verbatim>\<open>Math.round\<close> rounds half up.\<close>

definition js_round :: "real \<Rightarrow> int" where
  "js_round x = \<lfloor>x + 1 / 2\<rfloor>"

text \<open>
  The badge \<^verbatim>\<open>{Math.round(bookmark.relevance_score)}% match\<close>, rendered when the score is
  present and positive: the number it prints.
\<close>

definition relevance_badge :: "Bookmark \<Rightarrow> int option" where
  "relevance_badge b =
     (case relevance_score b of
        None \<Rightarrow> None
      | Some s \<Rightarrow> if s > 0 then Some (js_round s) else None)"

subsection \<open>The search page (\<^verbatim>\<open>pages/search.tsx\<close>)\<close>

text \<open>
  The block \<open>No bookmarks found\<close> is rendered when
  \<^verbatim>\<open>!isLoading && searchResults && searchResults.bookmarks.length === 0\<close>.
\<close>

definition no_results_shown :: "BookmarkState \<Rightarrow> bool" where
  "no_results_shown st =
     (\<not> isLoading st
      \<and> (case searchResults st of None \<Rightarrow> False | Some r \<Rightarrow> length (bookmarks_sr r) = 0))"

section \<open>The ingestion pipeline and the hybrid search engine\<close>

subsection \<open>Chunker\<close>

record ContentDocument =
  title_doc :: sqltext
  description_doc :: sqltext
  full_text :: sqltext
  platform_doc :: sqltext
  metadata_doc :: json

text \<open>
  Modelled from the spec: the Chunker's configuration (the backend's chunker is not among
  the sources). The rule that finds paragraph and sentence boundaries is a parameter; the
  budget and the overlap are counted in characters.
\<close>

record chunker_config =
  split_units :: "sqltext \<Rightarrow> sqltext list"
  max_chars :: nat
  overlap_chars :: nat

text \<open>
  Modelled from the spec: the Chunker's accumulation (missing from the sources), section
  4.2: units are accumulated until the budget would be exceeded, then a new chunk starts
  with the configured number of trailing characters of the previous one.
\<close>

fun accumulate :: "chunker_config \<Rightarrow> sqltext \<Rightarrow> sqltext list \<Rightarrow> sqltext list" where
  "accumulate cfg cur [] = (if cur = [] then [] else [cur])"
| "accumulate cfg cur (u # us) =
     (if cur = [] \<or> length cur + length u \<le> max_chars cfg
      then accumulate cfg (cur @ u) us
      else cur # accumulate cfg (drop (length cur - overlap_chars cfg) cur @ u) us)"

text \<open>
  Modelled from the spec: \<open>chunk(document)\<close> (missing from the sources), section 4.2: an
  ordered sequence of (index, text), indices from 0; an empty or whitespace-only document
  yields the empty sequence.
\<close>

definition chunk :: "chunker_config \<Rightarrow> ContentDocument \<Rightarrow> (nat \<times> sqltext) list" where
  "chunk cfg doc =
     (if list_all is_whitespace (full_text doc) then []
      else enumerate 0 (accumulate cfg [] (split_units cfg (full_text doc))))"

subsection \<open>Embedding Generator\<close>

datatype EmbeddingError = transient | quota_exceeded | provider_error

text \<open>
  Modelled from the spec: \<open>embed(chunks)\<close> (missing from the sources), section 4.3: one
  vector per chunk, in order; the step fails as a unit when any chunk's embedding fails.
  \<open>provider t\<close> is what the provider settles on for the text \<open>t\<close> once batching and
  retries are over.
\<close>

fun embed ::
  "(sqltext \<Rightarrow> EmbeddingError + real list) \<Rightarrow> sqltext list \<Rightarrow> EmbeddingError + real list list"
  where
  "embed provider [] = Inr []"
| "embed provider (t # ts) =
     (case provider t of
        Inl e \<Rightarrow> Inl e
      | Inr v \<Rightarrow> (case embed provider ts of Inl e \<Rightarrow> Inl e | Inr vs \<Rightarrow> Inr (v # vs)))"

subsection \<open>Indexer\<close>

datatype IndexError = storage_failure

text \<open>
  Modelled from the spec: the row the Indexer writes for one chunk (the Indexer is missing
  from the sources), over the columns of \<open>embeddings\<close>. \<open>gen i\<close> is the generated primary
  key of the \<open>i\<close>-th row.
\<close>

definition new_chunk_row ::
  "(nat \<Rightarrow> uuid) \<Rightarrow> timestamp \<Rightarrow> uuid \<Rightarrow> (nat \<times> sqltext) \<times> real list \<Rightarrow> embeddings_row" where
  "new_chunk_row gen now bid c =
     \<lparr>embeddings_id = gen (fst (fst c)), bookmark_id = Some bid,
      content_chunk = Some (snd (fst c)), embedding = Some (snd c),
      chunk_index = Some (int (fst (fst c))), embeddings_created_at = Some now\<rparr>"

text \<open>
  Modelled from the spec: \<open>persist(bookmark_id, chunks_with_vectors)\<close> (missing from the
  sources), section 4.5: in one atomic step delete the bookmark's existing chunks and
  insert the new set; on a storage failure nothing changes. Inserting for a bookmark that
  is not in \<open>bookmarks\<close> violates the foreign key and fails. The indexes follow the tables.
\<close>

definition persist ::
  "bool \<Rightarrow> (nat \<Rightarrow> uuid) \<Rightarrow> timestamp \<Rightarrow> uuid \<Rightarrow> ((nat \<times> sqltext) \<times> real list) list
     \<Rightarrow> database \<Rightarrow> (IndexError + unit) \<times> database" where
  "persist storage_ok gen now bid chunks_with_vectors db =
     (if storage_ok \<and> list_ex (\<lambda>b. bookmarks_id b = bid) (bookmarks_table db)
      then (Inr (),
            db\<lparr>embeddings_table :=
                 filter (\<lambda>e. bookmark_id e \<noteq> Some bid) (embeddings_table db)
                 @ map (new_chunk_row gen now bid) chunks_with_vectors\<rparr>)
      else (Inl storage_failure, db))"

datatype PipelineError = EmbeddingFailed EmbeddingError | IndexFailed IndexError

text \<open>
  Modelled from the spec: one run of the pipeline after extraction (the Job Orchestrator
  is missing from the sources), section 4.4: chunking, embedding, indexing, in this order;
  a failed stage ends the run and writes nothing. A re-index is the same run on a database
  that already holds chunks of the bookmark.
\<close>

definition index_bookmark ::
  "chunker_config \<Rightarrow> (sqltext \<Rightarrow> EmbeddingError + real list) \<Rightarrow> bool \<Rightarrow> (nat \<Rightarrow> uuid)
     \<Rightarrow> timestamp \<Rightarrow> uuid \<Rightarrow> ContentDocument \<Rightarrow> database
     \<Rightarrow> (PipelineError + unit) \<times> database" where
  "index_bookmark cfg provider storage_ok gen now bid doc db =
     (let chunks = chunk cfg doc
      in case embed provider (map snd chunks) of
           Inl e \<Rightarrow> (Inl (EmbeddingFailed e), db)
         | Inr vectors \<Rightarrow>
             (case persist storage_ok gen now bid (zip chunks vectors) db of
                (Inl e, db') \<Rightarrow> (Inl (IndexFailed e), db')
              | (Inr u, db') \<Rightarrow> (Inr (), db')))"


subsection \<open>Hybrid Search Engine\<close>

text \<open>Scores are exact reals; the arithmetic of the implementation's floats is not modelled.\<close>

fun dot :: "real list \<Rightarrow> real list \<Rightarrow> real" where
  "dot (x # xs) (y # ys) = x * y + dot xs ys"
| "dot _ _ = 0"

definition l2_norm :: "real list \<Rightarrow> real" where
  "l2_norm u = sqrt (dot u u)"

text \<open>
  Modelled from the spec: the similarity of the vector lookup (the search engine is
  missing from the sources), section 4.6 step 2, cosine similarity, as the operator class
  \<^verbatim>\<open>vector_cosine_ops\<close> of \<^verbatim>\<open>idx_embeddings_vector\<close> has it. It is undefined between vectors
  of different dimensions and for a zero vector.
\<close>

definition cosine_similarity :: "real list \<Rightarrow> real list \<Rightarrow> real option" where
  "cosine_similarity u v =
     (if length u = length v \<and> l2_norm u \<noteq> 0 \<and> l2_norm v \<noteq> 0
      then Some (dot u v / (l2_norm u * l2_norm v))
      else None)"

text \<open>
  Modelled from the spec: the chunk matches of the vector lookup (missing from the
  sources), section 4.6 step 2: a match is a chunk with its cosine similarity to the query
  vector, and the similarity scores returned are in \<open>[0, 1]\<close>; a chunk whose similarity
  is undefined or outside that interval is no match.
\<close>

definition scored_chunks :: "real list \<Rightarrow> embeddings_row list \<Rightarrow> (embeddings_row \<times> real) list" where
  "scored_chunks q rows =
     List.map_filter
       (\<lambda>e. case embedding e of
               None \<Rightarrow> None
             | Some v \<Rightarrow>
                 (case cosine_similarity q v of
                    None \<Rightarrow> None
                  | Some s \<Rightarrow> if 0 \<le> s \<and> s \<le> 1 then Some (e, s) else None))
       rows"

text \<open>
  Modelled from the spec: the vector-similarity lookup (missing from the sources), section
  4.6 step 2: the top-K chunk matches by similarity.
\<close>

definition vector_lookup ::
  "nat \<Rightarrow> real list \<Rightarrow> embeddings_row list \<Rightarrow> (embeddings_row \<times> real) list" where
  "vector_lookup k q rows = take k (sort_key (\<lambda>m. - snd m) (scored_chunks q rows))"

text \<open>The highest of a list of scores; none for the empty list.\<close>

fun best_score :: "real list \<Rightarrow> real option" where
  "best_score [] = None"
| "best_score (s # ss) = (case best_score ss of None \<Rightarrow> Some s | Some b \<Rightarrow> Some (max s b))"

text \<open>
  Modelled from the spec: the collapse of chunk matches to a bookmark (missing from the
  sources), section 4.6 step 4: per bookmark the maximum chunk score.
\<close>

definition vector_score :: "(embeddings_row \<times> real) list \<Rightarrow> uuid \<Rightarrow> real option" where
  "vector_score ms b = best_score (map snd (filter (\<lambda>m. bookmark_id (fst m) = Some b) ms))"

text \<open>
  Modelled from the spec: the tunable parameters of the search engine (missing from the
  sources), sections 4.6 and 9: K, the fusion of a bookmark's vector and lexical scores,
  the width of the tight band, and the moderate and the relaxed fraction of the best score.
\<close>

record search_config =
  top_k :: nat
  fuse :: "real option \<Rightarrow> real option \<Rightarrow> real"
  tight_band :: real
  moderate_fraction :: real
  relaxed_fraction :: real

text \<open>
  Modelled from the spec: adaptive thresholding (missing from the sources), section 4.6
  step 6, with the band limits 0.70 and 0.40 as written there: above 0.70 keep the results
  within the tight band of the best score; from 0.40 to 0.70 keep those at or above the
  moderate fraction of it; below 0.40 relax to the relaxed fraction. No candidates, no
  results.
\<close>

definition adaptive_threshold :: "search_config \<Rightarrow> ('a \<Rightarrow> real) \<Rightarrow> 'a list \<Rightarrow> 'a list" where
  "adaptive_threshold cfg score cands =
     (case best_score (map score cands) of
        None \<Rightarrow> []
      | Some best \<Rightarrow>
          if best > 70 / 100 then filter (\<lambda>c. best - score c \<le> tight_band cfg) cands
          else if 40 / 100 \<le> best then filter (\<lambda>c. moderate_fraction cfg * best \<le> score c) cands
          else filter (\<lambda>c. relaxed_fraction cfg * best \<le> score c) cands)"

record ranked_bookmark =
  rb_bookmark :: bookmarks_row
  rb_score :: real

text \<open>
  Modelled from the spec: the ranking order (missing from the sources), section 4.6 step
  7: fused score descending, ties broken by the more recent \<open>created_at\<close>.
\<close>

definition outranks :: "ranked_bookmark \<Rightarrow> ranked_bookmark \<Rightarrow> bool" where
  "outranks a b =
     (rb_score a > rb_score b
      \<or> (rb_score a = rb_score b
          \<and> (case (bookmarks_created_at (rb_bookmark a), bookmarks_created_at (rb_bookmark b)) of
                (Some s, Some t) \<Rightarrow> s > t
              | _ \<Rightarrow> False)))"

fun insert_ranked :: "ranked_bookmark \<Rightarrow> ranked_bookmark list \<Rightarrow> ranked_bookmark list" where
  "insert_ranked x [] = [x]"
| "insert_ranked x (y # ys) = (if outranks x y then x # y # ys else y # insert_ranked x ys)"

definition rank :: "ranked_bookmark list \<Rightarrow> ranked_bookmark list" where
  "rank cands = foldr insert_ranked cands []"

text \<open>
  Modelled from the spec: the scope of a search (missing from the sources), section 4.6:
  the chunks of the user's bookmarks that pass the optional filters, applied before the
  lookups.
\<close>

definition user_chunks :: "uuid \<Rightarrow> (bookmarks_row \<Rightarrow> bool) \<Rightarrow> database \<Rightarrow> embeddings_row list" where
  "user_chunks u in_scope db =
     filter
       (\<lambda>e. case bookmark_id e of
               None \<Rightarrow> False
             | Some b \<Rightarrow>
                 list_ex (\<lambda>r. bookmarks_id r = b \<and> bookmarks_user_id r = Some u \<and> in_scope r)
                   (bookmarks_table db))
       (embeddings_table db)"

text \<open>
  Modelled from the spec: the vector search of a query (missing from the sources), section
  4.6 steps 1 and 2: when the query's embedding fails the search degrades to lexical-only,
  that is, to no vector matches.
\<close>

definition vector_matches ::
  "search_config \<Rightarrow> uuid \<Rightarrow> (bookmarks_row \<Rightarrow> bool) \<Rightarrow> EmbeddingError + real list \<Rightarrow> database
     \<Rightarrow> (embeddings_row \<times> real) list" where
  "vector_matches cfg u in_scope query_embedding db =
     (case query_embedding of
        Inl e \<Rightarrow> []
      | Inr qv \<Rightarrow> vector_lookup (top_k cfg) qv (user_chunks u in_scope db))"

text \<open>
  Modelled from the spec: fusion (missing from the sources), section 4.6 step 5: every
  bookmark in scope that has a vector match or a lexical match, with its fused score.
\<close>

definition fused_candidates ::
  "search_config \<Rightarrow> uuid \<Rightarrow> (bookmarks_row \<Rightarrow> bool) \<Rightarrow> (embeddings_row \<times> real) list
     \<Rightarrow> (uuid \<times> real) list \<Rightarrow> database \<Rightarrow> ranked_bookmark list" where
  "fused_candidates cfg u in_scope vms lms db =
     List.map_filter
       (\<lambda>r. let vs = vector_score vms (bookmarks_id r); ls = map_of lms (bookmarks_id r)
            in if bookmarks_user_id r = Some u \<and> in_scope r \<and> (vs, ls) \<noteq> (None, None)
               then Some \<lparr>rb_bookmark = r, rb_score = fuse cfg vs ls\<rparr>
               else None)
       (bookmarks_table db)"

record search_response =
  ranked :: "ranked_bookmark list"
  total_found :: nat
  query_text :: sqltext

datatype SearchError = embedding_unavailable

text \<open>
  Modelled from the spec: \<open>search(user, query_text, filters)\<close> (missing from the sources),
  section 4.6. \<open>query_embedding\<close> is the outcome of embedding the query and
  \<open>lexical_matches\<close> the outcome of the lexical ranked search over the same scope. The
  search log entry is best effort: \<open>log_ok\<close> tells whether it could be written.
\<close>

definition hybrid_search ::
  "search_config \<Rightarrow> bool \<Rightarrow> uuid \<Rightarrow> timestamp \<Rightarrow> uuid \<Rightarrow> sqltext \<Rightarrow> (bookmarks_row \<Rightarrow> bool)
     \<Rightarrow> EmbeddingError + real list \<Rightarrow> (uuid \<times> real) list \<Rightarrow> database
     \<Rightarrow> (SearchError + search_response) \<times> database" where
  "hybrid_search cfg log_ok log_id now u q in_scope query_embedding lexical_matches db =
     (let vms = vector_matches cfg u in_scope query_embedding db;
          fused = fused_candidates cfg u in_scope vms lexical_matches db;
          results = rank (adaptive_threshold cfg rb_score fused);
          response = \<lparr>ranked = results, total_found = length results, query_text = q\<rparr>;
          entry = \<lparr>search_logs_id = log_id, search_logs_user_id = Some u,
                   search_logs_query = Some q, results_count = Some (int (length results)),
                   search_logs_created_at = Some now\<rparr>
      in (Inr response,
          if log_ok then db\<lparr>search_logs_table := search_logs_table db @ [entry]\<rparr> else db))"

text \<open>
  The response as the client receives it (\<^verbatim>\<open>interface SearchResult\<close>); how one ranked
  bookmark is serialised is a parameter.
\<close>

definition to_SearchResult :: "(ranked_bookmark \<Rightarrow> Bookmark) \<Rightarrow> search_response \<Rightarrow> SearchResult" where
  "to_SearchResult serialise r =
     \<lparr>bookmarks_sr = map serialise (ranked r), total = int (total_found r),
      query_sr = query_text r\<rparr>"


subsection \<open>Concrete states\<close>

definition example_page :: Page where
  "example_page =
     \<lparr>store = initial_store,
      bar = \<lparr>query = [32, 9, 160], suggestions = [], showSuggestions = False,
             input_focused = True\<rparr>,
      browser = \<lparr>access_token = None, location_href = []\<rparr>,
      requests = [],
      console_errors = []\<rparr>"

definition example_embedding :: "uuid \<Rightarrow> uuid option \<Rightarrow> int \<Rightarrow> embeddings_row" where
  "example_embedding i b k =
     \<lparr>embeddings_id = i, bookmark_id = b, content_chunk = Some [], embedding = Some [1, 0],
      chunk_index = Some k, embeddings_created_at = None\<rparr>"

definition example_bookmark_row :: "uuid \<Rightarrow> bookmarks_row" where
  "example_bookmark_row i =
     \<lparr>bookmarks_id = i, bookmarks_user_id = None, bookmarks_url = [104],
      bookmarks_title = Some [116], bookmarks_description = None, bookmarks_content = None,
      bookmarks_platform = None, bookmarks_metadata = None, bookmarks_tags = None,
      bookmarks_is_public = Some False, bookmarks_created_at = None,
      bookmarks_updated_at = None\<rparr>"

definition example_db :: database where
  "example_db =
     \<lparr>users_table = [],
      bookmarks_table = [example_bookmark_row 1, example_bookmark_row 2],
      embeddings_table =
        [example_embedding 10 (Some 1) 0, example_embedding 11 (Some 2) 0,
         example_embedding 12 (Some 1) 1, example_embedding 13 None 0],
      search_logs_table = []\<rparr>"

definition example_config :: search_config where
  "example_config =
     \<lparr>top_k = 10,
      fuse = (\<lambda>v l. max (case v of None \<Rightarrow> 0 | Some s \<Rightarrow> s) (case l of None \<Rightarrow> 0 | Some s \<Rightarrow> s)),
      tight_band = 5 / 100, moderate_fraction = 1 / 2, relaxed_fraction = 1 / 4\<rparr>"


definition example_chunker :: chunker_config where
  "example_chunker = \<lparr>split_units = map (\<lambda>c. [c]), max_chars = 2, overlap_chars = 1\<rparr>"

definition example_document :: ContentDocument where
  "example_document =
     \<lparr>title_doc = [116], description_doc = [], full_text = [97, 98, 99, 100],
      platform_doc = [], metadata_doc = JNull\<rparr>"

definition example_provider :: "sqltext \<Rightarrow> EmbeddingError + real list" where
  "example_provider t = Inr [real (length t), 1]"


section \<open>Properties\<close>

subsection \<open>Deleting a bookmark in the store\<close>

lemma detail_or_nonempty: "fallback \<noteq> [] \<Longrightarrow> detail_or e fallback \<noteq> []"
  by (simp add: detail_or_def split: option.splits)

text \<open>
  C10. \<open>deleteBookmark\<close> on success leaves the bookmark list with exactly the entries
  whose id differs from the deleted id, the others unchanged and in their order (the
  filtered list, a subsequence of the old one), and clears the error; on a failed API call
  the promise rejects with that error, the bookmark list and the search results are as
  before, and the error field holds the message.
\<close>

theorem deleteBookmark_list:
  "(case deleteBookmark i (Inr u) st of (r, st') \<Rightarrow>
      r = Inr ()
      \<and> bookmarks st' = filter (\<lambda>b. id_bm b \<noteq> i) (bookmarks st)
      \<and> subseq (bookmarks st') (bookmarks st)
      \<and> set (bookmarks st') = {b \<in> set (bookmarks st). id_bm b \<noteq> i}
      \<and> searchResults st' = searchResults st
      \<and> error st' = None)
   \<and> (case deleteBookmark i (Inl e) st of (r, st') \<Rightarrow>
      r = Inl e
      \<and> bookmarks st' = bookmarks st
      \<and> searchResults st' = searchResults st
      \<and> error st' = Some (detail_or e (lit ''Failed to delete bookmark''))
      \<and> isLoading st' = False)"
  by (auto simp: deleteBookmark_def Let_def)

subsection \<open>The search bar\<close>

lemma trim_Nil_iff: "trim s = [] \<longleftrightarrow> (\<forall>c \<in> set s. is_whitespace c)"
  unfolding trim_def by (induction s) (auto simp: dropWhile_eq_Nil_conv)

text \<open>
  C9. When the query the handler settles on (the override, or the input's text when the
  override is absent or empty) trims to the empty string, \<open>handleSearch\<close> returns at
  once: no request is sent and the whole page state, the stored search results with it,
  is as before, whatever the API would have answered.
\<close>

theorem handleSearch_blank_noop:
  assumes "trim (finalQuery searchQuery (query (bar w))) = []"
  shows "handleSearch searchQuery resp w = w
         \<and> requests (handleSearch searchQuery resp w) = requests w
         \<and> searchResults (store (handleSearch searchQuery resp w)) = searchResults (store w)"
  using assms by (simp add: handleSearch_def Let_def)

theorem handleSearch_blank_noop_witness:
  "trim (finalQuery None (query (bar example_page))) = []
   \<and> handleSearch None (Inl \<lparr>response_status = None, response_detail = None\<rparr>) example_page
       = example_page"
proof -
  have blank: "trim (finalQuery None (query (bar example_page))) = []"
    by (simp add: example_page_def finalQuery_def trim_def is_whitespace_def)
  show ?thesis
    using blank handleSearch_blank_noop [OF blank] by simp
qed

text \<open>
  The guard is the only way out: a query that does not trim to the empty string sends
  exactly one search request, in smart mode. An empty override falls back to the input's
  text, so \<open>handleSearch (Some [])\<close> searches for what the input holds.
\<close>

lemma handleSearch_sends:
  assumes "trim (finalQuery searchQuery (query (bar w))) \<noteq> []"
  shows "requests (handleSearch searchQuery resp w) =
           requests w @ [PostSearch \<lparr>query_sq = finalQuery searchQuery (query (bar w)),
             limit = None, mode = Some smart, platform_sq = None, tags_sq = None,
             date_from = None, date_to = None\<rparr>]"
  using assms
  by (cases resp) (simp_all add: handleSearch_def search_def Let_def)

lemma finalQuery_empty_override: "finalQuery (Some []) q = q"
  by (simp add: finalQuery_def)



subsection \<open>The declared shape of a bookmark\<close>



subsection \<open>Deleting a bookmark in the database\<close>

lemma deleted_ids:
  "set (map bookmarks_id (filter (\<lambda>b. bookmarks_id b = bid) bs)) =
     (if bid \<in> bookmarks_id ` set bs then {bid} else {})"
  by (induction bs) auto

lemma delete_bookmark_embeddings:
  assumes "bid \<in> bookmarks_id ` set (bookmarks_table db)"
  shows "embeddings_table (delete_bookmark bid db) =
           filter (\<lambda>e. bookmark_id e \<noteq> Some bid) (embeddings_table db)"
proof -
  define deleted where
    "deleted = map bookmarks_id (filter (\<lambda>b. bookmarks_id b = bid) (bookmarks_table db))"
  have d: "set deleted = {bid}"
    unfolding deleted_def using assms by (simp only: deleted_ids if_True)
  have "(case bookmark_id e of None \<Rightarrow> True | Some r \<Rightarrow> r \<notin> set deleted) = (bookmark_id e \<noteq> Some bid)"
    for e :: embeddings_row
    by (cases "bookmark_id e") (auto simp: d)
  then have "filter (\<lambda>e. case bookmark_id e of None \<Rightarrow> True | Some r \<Rightarrow> r \<notin> set deleted)
      (embeddings_table db) = filter (\<lambda>e. bookmark_id e \<noteq> Some bid) (embeddings_table db)"
    by simp
  then show ?thesis
    unfolding deleted_def delete_bookmark_def Let_def by simp
qed

text \<open>
  C4. Deleting an existing bookmark leaves no chunk that references it: none in the
  \<open>embeddings\<close> table, hence none in the vector index, and the bookmark's own row is out
  of the full-text index. The chunks of every other bookmark (and the unreferenced ones)
  stay, in their order.
\<close>

theorem delete_bookmark_cascade:
  assumes "bid \<in> bookmarks_id ` set (bookmarks_table db)"
  shows "chunks_of bid (delete_bookmark bid db) = []
         \<and> (\<forall>e \<in> set (embeddings_table (delete_bookmark bid db)). bookmark_id e \<noteq> Some bid)
         \<and> (\<forall>e \<in> set (idx_embeddings_vector (delete_bookmark bid db)). bookmark_id e \<noteq> Some bid)
         \<and> (\<forall>b \<in> set (idx_bookmarks_fts (delete_bookmark bid db)). bookmarks_id b \<noteq> bid)
         \<and> embeddings_table (delete_bookmark bid db) =
             filter (\<lambda>e. bookmark_id e \<noteq> Some bid) (embeddings_table db)"
proof -
  have fts: "\<forall>b \<in> set (idx_bookmarks_fts (delete_bookmark bid db)). bookmarks_id b \<noteq> bid"
    by (simp add: idx_bookmarks_fts_def delete_bookmark_def Let_def)
  show ?thesis
    using fts delete_bookmark_embeddings [OF assms]
    by (simp add: chunks_of_def idx_embeddings_vector_def)
qed

theorem delete_bookmark_cascade_witness:
  "1 \<in> bookmarks_id ` set (bookmarks_table example_db)
   \<and> chunks_of 1 example_db = [example_embedding 10 (Some 1) 0, example_embedding 12 (Some 1) 1]
   \<and> chunks_of 1 (delete_bookmark 1 example_db) = []
   \<and> embeddings_table (delete_bookmark 1 example_db) =
       [example_embedding 11 (Some 2) 0, example_embedding 13 None 0]"
proof -
  have present: "1 \<in> bookmarks_id ` set (bookmarks_table example_db)"
    by (simp add: example_db_def example_bookmark_row_def)
  have before: "chunks_of 1 example_db =
      [example_embedding 10 (Some 1) 0, example_embedding 12 (Some 1) 1]"
    by (simp add: chunks_of_def example_db_def example_embedding_def)
  have after: "filter (\<lambda>e. bookmark_id e \<noteq> Some 1) (embeddings_table example_db) =
      [example_embedding 11 (Some 2) 0, example_embedding 13 None 0]"
    by (simp add: example_db_def example_embedding_def)
  show ?thesis
    using present before after delete_bookmark_cascade [OF present] by simp
qed


subsection \<open>Chunk indices after indexing\<close>

lemma embed_length: "embed provider ts = Inr vs \<Longrightarrow> length vs = length ts"
  by (induction ts arbitrary: vs) (auto split: sum.splits)

lemma chunk_indices: "map fst (chunk cfg doc) = [0..<length (chunk cfg doc)]"
  by (simp add: chunk_def map_fst_enumerate)

lemma chunks_of_persist:
  assumes "persist storage_ok gen now bid cvs db = (Inr u, db')"
  shows "chunks_of bid db' = map (new_chunk_row gen now bid) cvs"
proof -
  have db': "db' = db\<lparr>embeddings_table :=
      filter (\<lambda>e. bookmark_id e \<noteq> Some bid) (embeddings_table db)
      @ map (new_chunk_row gen now bid) cvs\<rparr>"
    using assms by (simp add: persist_def split: if_splits)
  have "filter (\<lambda>e. bookmark_id e = Some bid) (map (new_chunk_row gen now bid) cvs)
      = map (new_chunk_row gen now bid) cvs"
    by (simp add: filter_id_conv new_chunk_row_def)
  then show ?thesis
    by (simp add: db' chunks_of_def)
qed

lemma chunks_of_persist_other:
  assumes "persist storage_ok gen now bid cvs db = (Inr u, db')" "other \<noteq> bid"
  shows "chunks_of other db' = chunks_of other db"
proof -
  have db': "db' = db\<lparr>embeddings_table :=
      filter (\<lambda>e. bookmark_id e \<noteq> Some bid) (embeddings_table db)
      @ map (new_chunk_row gen now bid) cvs\<rparr>"
    using assms by (simp add: persist_def split: if_splits)
  have "filter (\<lambda>e. bookmark_id e = Some other) (map (new_chunk_row gen now bid) cvs) = []"
    using assms(2) by (simp add: filter_empty_conv new_chunk_row_def)
  moreover have "filter (\<lambda>e. bookmark_id e = Some other)
        (filter (\<lambda>e. bookmark_id e \<noteq> Some bid) (embeddings_table db))
      = filter (\<lambda>e. bookmark_id e = Some other) (embeddings_table db)"
    using assms(2) by (auto intro: filter_cong)
  ultimately show ?thesis
    by (simp add: db' chunks_of_def)
qed

text \<open>
  C5. After a successful run of the pipeline for a bookmark, on any database (a first
  index or a re-index over older chunks), the chunk indices of the bookmark's stored
  chunks are, in storage order, exactly 0, 1, ..., n - 1 for its n chunks: no gap, no
  duplicate; n is the number of chunks the chunker produced.
\<close>

theorem index_bookmark_chunk_indices:
  assumes "index_bookmark cfg provider storage_ok gen now bid doc db = (Inr (), db')"
  shows "map chunk_index (chunks_of bid db')
           = map (\<lambda>i. Some (int i)) [0..<length (chunks_of bid db')]
         \<and> length (chunks_of bid db') = length (chunk cfg doc)
         \<and> distinct (map chunk_index (chunks_of bid db'))"
proof -
  obtain vectors where emb: "embed provider (map snd (chunk cfg doc)) = Inr vectors"
    and per: "persist storage_ok gen now bid (zip (chunk cfg doc) vectors) db = (Inr (), db')"
    using assms
    by (auto simp: index_bookmark_def Let_def split: sum.splits prod.splits)
  have len: "length vectors = length (chunk cfg doc)"
    using embed_length [OF emb] by simp
  have rows: "chunks_of bid db' = map (new_chunk_row gen now bid) (zip (chunk cfg doc) vectors)"
    using chunks_of_persist [OF per] .
  have "map chunk_index (chunks_of bid db')
      = map (\<lambda>c. Some (int (fst (fst c)))) (zip (chunk cfg doc) vectors)"
    by (simp add: rows new_chunk_row_def)
  also have "\<dots> = map (\<lambda>i. Some (int i)) (map fst (map fst (zip (chunk cfg doc) vectors)))"
    by simp
  also have "map fst (zip (chunk cfg doc) vectors) = chunk cfg doc"
    using len by simp
  also have "map fst (chunk cfg doc) = [0..<length (chunk cfg doc)]"
    by (rule chunk_indices)
  finally have idx: "map chunk_index (chunks_of bid db')
      = map (\<lambda>i. Some (int i)) [0..<length (chunk cfg doc)]" .
  have n: "length (chunks_of bid db') = length (chunk cfg doc)"
    using len by (simp add: rows)
  have "distinct (map (\<lambda>i. Some (int i)) [0..<length (chunk cfg doc)])"
    by (simp add: distinct_map inj_on_def)
  then show ?thesis
    using idx n by simp
qed

text \<open>
  A failed run writes nothing, and a run never touches the chunks of another bookmark.
\<close>

lemma index_bookmark_failure:
  assumes "index_bookmark cfg provider storage_ok gen now bid doc db = (Inl e, db')"
  shows "db' = db"
  using assms
  by (auto simp: index_bookmark_def persist_def Let_def split: sum.splits if_splits)

lemma index_bookmark_other:
  assumes "index_bookmark cfg provider storage_ok gen now bid doc db = (r, db')"
    and "other \<noteq> bid"
  shows "chunks_of other db' = chunks_of other db"
proof (cases r)
  case (Inl e)
  then show ?thesis
    using assms(1) index_bookmark_failure by blast
next
  case (Inr u)
  then obtain vectors where
    "persist storage_ok gen now bid (zip (chunk cfg doc) vectors) db = (Inr (), db')"
    using assms(1)
    by (auto simp: index_bookmark_def Let_def split: sum.splits prod.splits)
  then show ?thesis
    using chunks_of_persist_other assms(2) by blast
qed

lemma example_chunks:
  "chunk example_chunker example_document = [(0, [97, 98]), (1, [98, 99]), (2, [99, 100])]"
  by (simp add: chunk_def example_chunker_def example_document_def is_whitespace_def
      enumerate_eq_zip upt_rec)

theorem index_bookmark_chunk_indices_witness:
  "fst (index_bookmark example_chunker example_provider True (\<lambda>i. 100 + i) 5 1
          example_document example_db) = Inr ()
   \<and> map chunk_index (chunks_of 1 example_db) = [Some 0, Some 1]
   \<and> map chunk_index
        (chunks_of 1 (snd (index_bookmark example_chunker example_provider True (\<lambda>i. 100 + i) 5 1
           example_document example_db)))
       = [Some 0, Some 1, Some 2]"
proof -
  let ?run = "index_bookmark example_chunker example_provider True (\<lambda>i. 100 + i) 5 1
      example_document example_db"
  have ok: "fst ?run = Inr ()"
    by (simp add: index_bookmark_def example_chunks example_provider_def persist_def
        example_db_def example_bookmark_row_def)
  have run: "?run = (Inr (), snd ?run)"
    using ok by (cases ?run) simp
  have before: "map chunk_index (chunks_of 1 example_db) = [Some 0, Some 1]"
    by (simp add: chunks_of_def example_db_def example_embedding_def)
  have three: "[0..<length (chunk example_chunker example_document)] = [0, 1, 2]"
    by (simp add: example_chunks upt_rec)
  have "map chunk_index (chunks_of 1 (snd ?run)) = [Some 0, Some 1, Some 2]"
    using index_bookmark_chunk_indices [OF run] three by simp
  then show ?thesis
    using ok before by simp
qed

subsection \<open>Adaptive thresholding\<close>

text \<open>
  The specification names the three bands but not their widths. The three literal examples
  of its section 8 (the first two of 0.95, 0.92, 0.50, 0.10; the first two of
  0.60, 0.55, 0.20; both of 0.30, 0.10) come out as written exactly under the
  configurations whose tight band is at least 0.03 and below 0.45, whose moderate fraction
  is above 1/3 and at most 11/12, and whose relaxed fraction is at most 1/3.
\<close>

lemma adaptive_threshold_examples_iff:
  "(adaptive_threshold cfg (\<lambda>s. s) [95 / 100, 92 / 100, 50 / 100, 10 / 100]
       = [95 / 100, 92 / 100]
    \<and> adaptive_threshold cfg (\<lambda>s. s) [60 / 100, 55 / 100, 20 / 100] = [60 / 100, 55 / 100]
    \<and> adaptive_threshold cfg (\<lambda>s. s) [30 / 100, 10 / 100] = [30 / 100, 10 / 100])
   \<longleftrightarrow>
   (3 / 100 \<le> tight_band cfg \<and> tight_band cfg < 45 / 100
    \<and> 1 / 3 < moderate_fraction cfg \<and> moderate_fraction cfg \<le> 11 / 12
    \<and> relaxed_fraction cfg \<le> 1 / 3)"
proof -
  have "adaptive_threshold cfg (\<lambda>s. s) [95 / 100, 92 / 100, 50 / 100, 10 / 100]
      = [95 / 100, 92 / 100]
    \<longleftrightarrow> 3 / 100 \<le> tight_band cfg \<and> tight_band cfg < 45 / 100"
    by (auto simp: adaptive_threshold_def split: if_splits)
  moreover have "adaptive_threshold cfg (\<lambda>s. s) [60 / 100, 55 / 100, 20 / 100]
      = [60 / 100, 55 / 100]
    \<longleftrightarrow> 1 / 3 < moderate_fraction cfg \<and> moderate_fraction cfg \<le> 11 / 12"
    by (auto simp: adaptive_threshold_def split: if_splits)
  moreover have "adaptive_threshold cfg (\<lambda>s. s) [30 / 100, 10 / 100] = [30 / 100, 10 / 100]
    \<longleftrightarrow> relaxed_fraction cfg \<le> 1 / 3"
    by (auto simp: adaptive_threshold_def split: if_splits)
  ultimately show ?thesis by blast
qed

text \<open>A tight band of 0.02 is still a tight band, and keeps the top score alone.\<close>

lemma adaptive_threshold_narrow_band:
  "adaptive_threshold (example_config\<lparr>tight_band := 2 / 100\<rparr>) (\<lambda>s. s)
     [95 / 100, 92 / 100, 50 / 100, 10 / 100] = [95 / 100]"
  by (simp add: adaptive_threshold_def example_config_def)

subsection \<open>A search without candidates\<close>

lemma map_filter_None: "List.map_filter (\<lambda>x. None) xs = []"
  by (simp add: List.map_filter_def)

lemma fused_candidates_empty: "fused_candidates cfg u in_scope [] [] db = []"
  by (simp add: fused_candidates_def vector_score_def Let_def map_filter_None)

lemma adaptive_threshold_Nil: "adaptive_threshold cfg score [] = []"
  by (simp add: adaptive_threshold_def)

text \<open>
  C7. When the vector search and the lexical search both yield no candidate, the search
  succeeds with the empty ranked list and total 0, whether or not the log entry could be
  written; the client's store takes that response without an error and the search page
  shows its no-results block.
\<close>

theorem hybrid_search_no_candidates:
  assumes "vector_matches cfg u in_scope query_embedding db = []"
    and "lexical_matches = []"
  shows "fst (hybrid_search cfg log_ok log_id now u q in_scope query_embedding lexical_matches db)
           = Inr \<lparr>ranked = [], total_found = 0, query_text = q\<rparr>
         \<and> (case search qy (Inr (to_SearchResult serialise
                    \<lparr>ranked = [], total_found = 0, query_text = q\<rparr>)) st of
              (r, st') \<Rightarrow>
                r = Inr \<lparr>bookmarks_sr = [], total = 0, query_sr = q\<rparr>
                \<and> searchResults st' = Some \<lparr>bookmarks_sr = [], total = 0, query_sr = q\<rparr>
                \<and> error st' = None
                \<and> no_results_shown st')"
proof -
  have "fst (hybrid_search cfg log_ok log_id now u q in_scope query_embedding lexical_matches db)
      = Inr \<lparr>ranked = [], total_found = 0, query_text = q\<rparr>"
    using assms
    by (simp add: hybrid_search_def Let_def fused_candidates_empty adaptive_threshold_Nil rank_def)
  moreover have "to_SearchResult serialise \<lparr>ranked = [], total_found = 0, query_text = q\<rparr>
      = \<lparr>bookmarks_sr = [], total = 0, query_sr = q\<rparr>"
    by (simp add: to_SearchResult_def)
  ultimately show ?thesis
    by (simp add: search_def Let_def no_results_shown_def)
qed

theorem hybrid_search_no_candidates_witness:
  "vector_matches example_config 7 (\<lambda>r. True) (Inl transient) example_db = []
   \<and> fst (hybrid_search example_config True 99 0 7 [104, 105] (\<lambda>r. True) (Inl transient) []
            example_db)
       = Inr \<lparr>ranked = [], total_found = 0, query_text = [104, 105]\<rparr>"
proof -
  have none: "vector_matches example_config 7 (\<lambda>r. True) (Inl transient) example_db = []"
    by (simp add: vector_matches_def)
  show ?thesis
    using none hybrid_search_no_candidates [OF none refl, of True 99 0 "[104, 105]"] by simp
qed

subsection \<open>The range of similarity scores\<close>

lemma dot_self_nonneg: "0 \<le> dot u u"
  by (induction u) auto

lemma two_products_bound:
  fixes x y d A B :: real
  assumes "d\<^sup>2 \<le> A * B" "0 \<le> A" "0 \<le> B"
  shows "2 * (x * y * d) \<le> x\<^sup>2 * B + y\<^sup>2 * A"
proof -
  have "\<bar>d\<bar> \<le> sqrt A * sqrt B"
    using assms by (metis real_sqrt_abs real_sqrt_le_mono real_sqrt_mult)
  then have "(\<bar>x\<bar> * \<bar>y\<bar>) * \<bar>d\<bar> \<le> (\<bar>x\<bar> * \<bar>y\<bar>) * (sqrt A * sqrt B)"
    by (rule mult_left_mono) simp
  then have "\<bar>x\<bar> * \<bar>y\<bar> * \<bar>d\<bar> \<le> (\<bar>x\<bar> * sqrt B) * (\<bar>y\<bar> * sqrt A)"
    by (simp add: mult.commute mult.left_commute)
  moreover have "2 * ((\<bar>x\<bar> * sqrt B) * (\<bar>y\<bar> * sqrt A)) \<le> (\<bar>x\<bar> * sqrt B)\<^sup>2 + (\<bar>y\<bar> * sqrt A)\<^sup>2"
    using sum_squares_bound [of "\<bar>x\<bar> * sqrt B" "\<bar>y\<bar> * sqrt A"] by simp
  moreover have "(\<bar>x\<bar> * sqrt B)\<^sup>2 = x\<^sup>2 * B" "(\<bar>y\<bar> * sqrt A)\<^sup>2 = y\<^sup>2 * A"
    using assms by (simp_all add: power_mult_distrib)
  moreover have "x * y * d \<le> \<bar>x\<bar> * \<bar>y\<bar> * \<bar>d\<bar>"
    by (metis abs_ge_self abs_mult)
  ultimately show ?thesis by linarith
qed

lemma dot_squared_le: "(dot u v)\<^sup>2 \<le> dot u u * dot v v"
proof (induction u v rule: dot.induct)
  case (1 x xs y ys)
  have "2 * (x * y * dot xs ys) \<le> x\<^sup>2 * dot ys ys + y\<^sup>2 * dot xs xs"
    using two_products_bound [OF "1.IH" dot_self_nonneg dot_self_nonneg] .
  then show ?case
    using "1.IH" by (simp add: power2_eq_square algebra_simps)
qed (simp_all add: dot_self_nonneg)

lemma abs_dot_le: "\<bar>dot u v\<bar> \<le> l2_norm u * l2_norm v"
proof -
  have "sqrt ((dot u v)\<^sup>2) \<le> sqrt (dot u u * dot v v)"
    using dot_squared_le real_sqrt_le_mono by blast
  then show ?thesis
    by (simp add: l2_norm_def real_sqrt_mult)
qed

lemma l2_norm_nonneg: "0 \<le> l2_norm u"
  by (simp add: l2_norm_def dot_self_nonneg)

text \<open>
  Cosine similarity itself ranges over \<open>[- 1, 1]\<close>, and reaches \<open>- 1\<close> for opposed
  vectors; the specification does not say how the lookup comes to scores in \<open>[0, 1]\<close>.
\<close>

lemma cosine_similarity_bounds:
  assumes "cosine_similarity u v = Some s"
  shows "- 1 \<le> s \<and> s \<le> 1"
proof -
  have pos: "0 < l2_norm u * l2_norm v" and s: "s = dot u v / (l2_norm u * l2_norm v)"
    using assms l2_norm_nonneg [of u] l2_norm_nonneg [of v]
    by (auto simp: cosine_similarity_def split: if_splits)
  have "\<bar>s\<bar> \<le> 1"
    using abs_dot_le [of u v] pos by (simp add: s)
  then show ?thesis by (simp add: abs_le_iff)
qed

lemma cosine_similarity_opposed: "cosine_similarity [- 1, 0] [1, 0] = Some (- 1)"
  by (simp add: cosine_similarity_def l2_norm_def)

text \<open>
  The client prints the relevance score as a rounded percentage: a score in \<open>(0, 1]\<close>
  would always be shown as 0% or 1%.
\<close>

lemma relevance_badge_unit_interval:
  assumes "relevance_score b = Some s" "0 < s" "s \<le> 1"
  shows "relevance_badge b = Some 0 \<or> relevance_badge b = Some 1"
proof -
  have "js_round s = 0 \<or> js_round s = 1"
    using assms(2,3) unfolding js_round_def by linarith
  then show ?thesis
    using assms(1,2) by (auto simp: relevance_badge_def)
qed

end
